theory Spec2Isabelle
  imports Complex_Main "HOL-Library.Word"
begin

unbundle bit_operations_syntax

section \<open>Configuration values and messages\<close>

text \<open>
  The baseband core of the PortaPack firmware, \<^verbatim>\<open>firmware/baseband/main.cpp\<close>. The
  message declarations live in a header outside this file; the fields below are the ones
  \<^verbatim>\<open>main.cpp\<close> reads and writes (\<^verbatim>\<open>configuration.mode\<close>,
  \<^verbatim>\<open>baseband_configuration.sampling_rate\<close>, the five fields of an FSK
  configuration, \<^verbatim>\<open>packet.payload\<close> and \<^verbatim>\<open>packet.bits_received\<close>).
\<close>

record BasebandConfiguration =
  mode :: int
  sampling_rate :: nat

record FSKConfiguration =
  symbol_rate :: nat
  access_code :: nat
  access_code_length :: nat
  access_code_tolerance :: nat
  packet_length :: nat

text \<open>\<^verbatim>\<open>std::bitset<256>\<close> is a list of 256 booleans, bit 0 first.\<close>

record FSKPacket =
  payload :: "bool list"
  bits_received :: nat

datatype ID =
    ID_RSSIStatistics
  | ID_BasebandStatistics
  | ID_BasebandConfiguration
  | ID_FSKConfiguration
  | ID_FSKPacket
  | ID_Shutdown

text \<open>
  The statistics records carry measurements that no function modelled here reads, so the
  two statistics messages have no payload.
\<close>

datatype Message =
    RSSIStatisticsMessage
  | BasebandStatisticsMessage
  | BasebandConfigurationMessage BasebandConfiguration
  | FSKConfigurationMessage FSKConfiguration
  | FSKPacketMessage FSKPacket
  | ShutdownMessage

fun Message_id :: "Message \<Rightarrow> ID" where
  "Message_id RSSIStatisticsMessage = ID_RSSIStatistics"
| "Message_id BasebandStatisticsMessage = ID_BasebandStatistics"
| "Message_id (BasebandConfigurationMessage c) = ID_BasebandConfiguration"
| "Message_id (FSKConfigurationMessage c) = ID_FSKConfiguration"
| "Message_id (FSKPacketMessage p) = ID_FSKPacket"
| "Message_id ShutdownMessage = ID_Shutdown"

section \<open>The message handler map\<close>

text \<open>
  A handler is a closure in the C++; the three closures that \<^verbatim>\<open>main.cpp\<close> ever
  registers are named here by the place that creates them: the lambda registered by
  \<^verbatim>\<open>main\<close> for \<^verbatim>\<open>BasebandConfiguration\<close>, the one it registers for
  \<^verbatim>\<open>Shutdown\<close>, and the one the \<^verbatim>\<open>FSKProcessor\<close> constructor registers
  for \<^verbatim>\<open>FSKConfiguration\<close> (it captures \<^verbatim>\<open>this\<close>).
\<close>

datatype MessageHandler =
    BasebandConfiguration_lambda
  | Shutdown_lambda
  | FSKConfiguration_lambda

type_synonym MessageHandlerMap = "ID \<Rightarrow> MessageHandler option"

datatype error =
    DoubleRegistration ID
  | DanglingProcessor
  | InvalidCast
  | ContractViolation

text \<open>
  Modelled from the spec: \<^verbatim>\<open>MessageHandlerMap::register_handler\<close> is declared in a
  header that is not part of \<^verbatim>\<open>main.cpp\<close>. The spec allows one handler per message
  kind and makes a second registration for a kind that already has a handler a programming
  error that fails loudly and does not override: the call stops with
  \<open>DoubleRegistration\<close> and the map is not returned.
\<close>

definition register_handler ::
  "MessageHandlerMap \<Rightarrow> ID \<Rightarrow> MessageHandler \<Rightarrow> error + MessageHandlerMap" where
  "register_handler m i h =
     (case m i of
        Some h0 \<Rightarrow> Inl (DoubleRegistration i)
      | None \<Rightarrow> Inr (m(i \<mapsto> h)))"

text \<open>
  Modelled from the spec: \<^verbatim>\<open>MessageHandlerMap::unregister_handler\<close> (same header)
  releases the registration of a kind.
\<close>

definition unregister_handler :: "MessageHandlerMap \<Rightarrow> ID \<Rightarrow> MessageHandlerMap" where
  "unregister_handler m i = m(i := None)"

section \<open>The FSK pipeline after demodulation\<close>

subsection \<open>Sample values\<close>

text \<open>
  A demodulated sample is a C \<^verbatim>\<open>float\<close>. The only operation \<^verbatim>\<open>main.cpp\<close>
  applies to one is the comparison \<^verbatim>\<open>value >= 0.0f\<close>, which is false for a NaN.
\<close>

datatype float32 = Finite real | PlusInfinity | MinusInfinity | NaN

fun ge_zero :: "float32 \<Rightarrow> bool" where
  "ge_zero (Finite r) = (0 \<le> r)"
| "ge_zero PlusInfinity = True"
| "ge_zero MinusInfinity = False"
| "ge_zero NaN = False"

text \<open>\<^verbatim>\<open>const uint_fast8_t symbol = (value >= 0.0f) ? 1 : 0;\<close>\<close>

definition symbol_of :: "float32 \<Rightarrow> nat" where
  "symbol_of v = (if ge_zero v then 1 else 0)"

subsection \<open>Access-code correlator\<close>

text \<open>
  Modelled from the spec: the class \<^verbatim>\<open>AccessCodeCorrelator\<close> is not part of
  \<^verbatim>\<open>main.cpp\<close>. The spec describes a rolling window of the most recent \<open>N\<close>
  symbols, \<open>N\<close> the configured access-code length, into which each new symbol is
  shifted, and a match when the Hamming distance between the window and the target
  pattern is at most the configured tolerance; the window is not reset by a match. The
  window is a shift register held as a natural number: bit 0 is the newest symbol, bit
  \<open>i\<close> the symbol received \<open>i\<close> symbols earlier, and bit \<open>i\<close> of the access code is the
  value expected there. The spec names a window capacity without giving it; a natural
  number has none, so no length is refused here.
\<close>

record AccessCodeCorrelator =
  acc_history :: nat
  acc_code :: nat
  acc_code_length :: nat
  acc_maximum_hamming_distance :: nat

text \<open>
  Modelled from the spec: the Hamming distance of the spec's correlator window, the number
  of positions below \<open>n\<close> at which two bit patterns differ.
\<close>

definition hamming_distance :: "nat \<Rightarrow> nat \<Rightarrow> nat \<Rightarrow> nat" where
  "hamming_distance n a b = length (filter (\<lambda>i. bit a i \<noteq> bit b i) [0..<n])"

text \<open>
  Modelled from the spec: \<^verbatim>\<open>AccessCodeCorrelator::configure\<close>, called by
  \<^verbatim>\<open>FSKProcessor::configure\<close> with the access code, its length and the tolerance,
  stores the three; the window is kept.
\<close>

definition AccessCodeCorrelator_configure ::
  "AccessCodeCorrelator \<Rightarrow> nat \<Rightarrow> nat \<Rightarrow> nat \<Rightarrow> AccessCodeCorrelator" where
  "AccessCodeCorrelator_configure c new_code new_code_length new_tolerance =
     c\<lparr>acc_code := new_code,
       acc_code_length := new_code_length,
       acc_maximum_hamming_distance := new_tolerance\<rparr>"

text \<open>
  Modelled from the spec: \<^verbatim>\<open>AccessCodeCorrelator::execute\<close> shifts the symbol into
  the window, cut to the configured length, and reports whether the Hamming distance to
  the access code is at most the tolerance.
\<close>

definition AccessCodeCorrelator_execute ::
  "AccessCodeCorrelator \<Rightarrow> nat \<Rightarrow> AccessCodeCorrelator \<times> bool" where
  "AccessCodeCorrelator_execute c symbol =
     (let h = take_bit (acc_code_length c)
                (2 * acc_history c + (if symbol \<noteq> 0 then 1 else 0))
      in (c\<lparr>acc_history := h\<rparr>,
          hamming_distance (acc_code_length c) h (acc_code c)
            \<le> acc_maximum_hamming_distance c))"

subsection \<open>Packet builder\<close>

text \<open>
  Modelled from the spec: the class \<^verbatim>\<open>PacketBuilder\<close> is not part of
  \<^verbatim>\<open>main.cpp\<close>; only its calls are (\<^verbatim>\<open>configure(packet_length)\<close> and
  \<^verbatim>\<open>execute(symbol, access_code_found, payload_handler)\<close>, the handler taking a
  \<^verbatim>\<open>std::bitset<256>\<close> and a bit count). The spec gives a state machine with the
  states \<open>Idle\<close> and \<open>Capturing\<close>:
  \<^item> \<open>Idle\<close>, match found: clear payload and counter, go to \<open>Capturing\<close>; the symbol
    of the match is not stored;
  \<^item> \<open>Capturing\<close>, new match found: restart the capture, dropping what was captured
    (a later match always wins, so this is tested first);
  \<^item> \<open>Capturing\<close>, counter below the packet length: append the bit;
  \<^item> \<open>Capturing\<close>, counter equal to the packet length: call the payload handler with
    the payload and the count, then reset and go to \<open>Idle\<close>.
  The spec has no transition for a counter above the packet length; the builder then stays
  as it is. A packet length above the capacity of the payload (256 bits) is refused by
  \<open>configure\<close>, which leaves the builder as it was.
\<close>

datatype PacketBuilder_State = Idle | Capturing

record PacketBuilder =
  pb_packet_length :: nat
  pb_state :: PacketBuilder_State
  pb_payload :: "bool list"
  pb_bits_received :: nat

text \<open>
  Modelled from the spec: \<^verbatim>\<open>PacketBuilder::configure\<close> sets the packet length, and
  refuses one above the 256 bits of the payload.
\<close>

definition PacketBuilder_configure :: "PacketBuilder \<Rightarrow> nat \<Rightarrow> PacketBuilder" where
  "PacketBuilder_configure pb new_packet_length =
     (if new_packet_length \<le> 256 then pb\<lparr>pb_packet_length := new_packet_length\<rparr> else pb)"

text \<open>
  Modelled from the spec: \<^verbatim>\<open>PacketBuilder::execute\<close>, one step of the state machine
  above; the second component is the call of the payload handler, if the step makes one,
  with the payload and the bit count it passes.
\<close>

definition PacketBuilder_execute ::
  "PacketBuilder \<Rightarrow> nat \<Rightarrow> bool \<Rightarrow> PacketBuilder \<times> (bool list \<times> nat) option" where
  "PacketBuilder_execute pb symbol access_code_found =
     (case pb_state pb of
        Idle \<Rightarrow>
          if access_code_found
          then (pb\<lparr>pb_state := Capturing, pb_payload := replicate 256 False,
                   pb_bits_received := 0\<rparr>, None)
          else (pb, None)
      | Capturing \<Rightarrow>
          if access_code_found
          then (pb\<lparr>pb_payload := replicate 256 False, pb_bits_received := 0\<rparr>, None)
          else if pb_bits_received pb < pb_packet_length pb
          then (pb\<lparr>pb_payload := (pb_payload pb)[pb_bits_received pb := (symbol \<noteq> 0)],
                   pb_bits_received := pb_bits_received pb + 1\<rparr>, None)
          else if pb_bits_received pb = pb_packet_length pb
          then (pb\<lparr>pb_state := Idle, pb_payload := replicate 256 False,
                   pb_bits_received := 0\<rparr>,
                Some (pb_payload pb, pb_bits_received pb))
          else (pb, None))"

subsection \<open>FSKProcessor\<close>

text \<open>
  The FM demodulator and the clock recovery compute on floats in classes outside
  \<^verbatim>\<open>main.cpp\<close>; of them the processor state keeps the two arguments of their last
  \<^verbatim>\<open>configure\<close> call.
\<close>

record FSKProcessor =
  demod :: "nat \<times> nat"
  clock_recovery :: "nat \<times> nat"
  access_code_correlator :: AccessCodeCorrelator
  packet_builder :: PacketBuilder

text \<open>\<^verbatim>\<open>FSKProcessor::configure\<close>\<close>

definition configure :: "FSKProcessor \<Rightarrow> FSKConfiguration \<Rightarrow> FSKProcessor" where
  "configure p new_configuration =
     p\<lparr>demod := (76800, 2 * symbol_rate new_configuration),
       clock_recovery := (symbol_rate new_configuration, 76800),
       access_code_correlator :=
         AccessCodeCorrelator_configure (access_code_correlator p)
           (access_code new_configuration)
           (access_code_length new_configuration)
           (access_code_tolerance new_configuration),
       packet_builder :=
         PacketBuilder_configure (packet_builder p) (packet_length new_configuration)\<rparr>"

text \<open>
  \<^verbatim>\<open>FSKProcessor::payload_handler\<close> builds an \<^verbatim>\<open>FSKPacketMessage\<close> and pushes
  it to \<^verbatim>\<open>shared_memory.application_queue\<close>. The functions of the pipeline return
  the messages they push, in order.
\<close>

definition payload_handler :: "bool list \<Rightarrow> nat \<Rightarrow> Message list" where
  "payload_handler payload_bits n =
     [FSKPacketMessage \<lparr>payload = payload_bits, bits_received = n\<rparr>]"

text \<open>\<^verbatim>\<open>FSKProcessor::consume_symbol\<close>\<close>

definition consume_symbol :: "FSKProcessor \<Rightarrow> nat \<Rightarrow> bool \<Rightarrow> FSKProcessor \<times> Message list" where
  "consume_symbol p symbol access_code_found =
     (case PacketBuilder_execute (packet_builder p) symbol access_code_found of
        (pb, None) \<Rightarrow> (p\<lparr>packet_builder := pb\<rparr>, [])
      | (pb, Some (payload_bits, n)) \<Rightarrow>
          (p\<lparr>packet_builder := pb\<rparr>, payload_handler payload_bits n))"

text \<open>The lambda \<^verbatim>\<open>symbol_handler_fn\<close> of \<^verbatim>\<open>FSKProcessor::execute\<close>.\<close>

definition symbol_handler_fn :: "FSKProcessor \<Rightarrow> float32 \<Rightarrow> FSKProcessor \<times> Message list" where
  "symbol_handler_fn p v =
     (let symbol = symbol_of v;
          (acc, access_code_found) =
            AccessCodeCorrelator_execute (access_code_correlator p) symbol
      in consume_symbol (p\<lparr>access_code_correlator := acc\<rparr>) symbol access_code_found)"

text \<open>
  The loop at the end of \<^verbatim>\<open>FSKProcessor::execute\<close> hands every demodulated sample
  to clock recovery, which calls \<^verbatim>\<open>symbol_handler_fn\<close> for each symbol it decides.
  \<open>symbol_handler_run\<close> is that succession of calls, for the values clock recovery hands
  over.
\<close>

fun symbol_handler_run :: "FSKProcessor \<Rightarrow> float32 list \<Rightarrow> FSKProcessor \<times> Message list" where
  "symbol_handler_run p [] = (p, [])"
| "symbol_handler_run p (v # vs) =
     (let (p1, out1) = symbol_handler_fn p v;
          (p2, out2) = symbol_handler_run p1 vs
      in (p2, out1 @ out2))"

section \<open>Channel decimator\<close>

text \<open>
  A buffer is a view of sample memory: a pointer, a sample count and a sampling rate
  (\<^verbatim>\<open>buffer.p\<close>, \<^verbatim>\<open>buffer.count\<close>, \<^verbatim>\<open>buffer.sampling_rate\<close> in
  \<^verbatim>\<open>main.cpp\<close>). The sample values are filter arithmetic of classes outside
  \<^verbatim>\<open>main.cpp\<close>; the view keeps the count and the rate.
\<close>

record buffer_t =
  count :: nat
  sampling_rate_of :: nat

text \<open>
  Modelled from the spec: the class \<^verbatim>\<open>ChannelDecimator\<close> is not part of
  \<^verbatim>\<open>main.cpp\<close>, which only builds one with \<^verbatim>\<open>DecimationFactor::By16\<close> and
  calls its \<^verbatim>\<open>execute\<close>. The spec describes a cascade of one or more half-band
  stages, each decimating by two, configured as one power-of-two factor (4, 8 and 16 are
  its examples), and makes an input count that the factor does not divide a contract
  violation. A factor is therefore any power of two from 2 on: \<open>By2\<close> is one stage, and
  \<open>Twice f\<close> is the factor \<open>f\<close> with one more stage.
\<close>

datatype DecimationFactor = By2 | Twice DecimationFactor

text \<open>Modelled from the spec: the factors that the spec and \<^verbatim>\<open>main.cpp\<close> name.\<close>

definition By4 :: DecimationFactor where
  "By4 = Twice By2"

definition By8 :: DecimationFactor where
  "By8 = Twice By4"

definition By16 :: DecimationFactor where
  "By16 = Twice By8"

text \<open>
  Modelled from the spec: one half-band stage halves the sample count and the sampling
  rate (unsigned integers, so the division truncates).
\<close>

definition half_band_stage :: "buffer_t \<Rightarrow> buffer_t" where
  "half_band_stage b = \<lparr>count = count b div 2, sampling_rate_of = sampling_rate_of b div 2\<rparr>"

text \<open>Modelled from the spec: a cascade of \<open>k\<close> half-band stages.\<close>

fun cascade :: "nat \<Rightarrow> buffer_t \<Rightarrow> buffer_t" where
  "cascade 0 b = b"
| "cascade (Suc k) b = cascade k (half_band_stage b)"

text \<open>Modelled from the spec: the number of half-band stages of each factor.\<close>

fun stages :: "DecimationFactor \<Rightarrow> nat" where
  "stages By2 = 1"
| "stages (Twice f) = Suc (stages f)"

text \<open>Modelled from the spec: the factor as a number.\<close>

fun factor :: "DecimationFactor \<Rightarrow> nat" where
  "factor By2 = 2"
| "factor (Twice f) = 2 * factor f"

text \<open>
  Modelled from the spec: \<^verbatim>\<open>ChannelDecimator::execute\<close> stops with a contract
  violation on an input count that the factor does not divide, and runs the cascade
  otherwise.
\<close>

definition ChannelDecimator_execute :: "DecimationFactor \<Rightarrow> buffer_t \<Rightarrow> error + buffer_t" where
  "ChannelDecimator_execute f b =
     (if count b mod factor f \<noteq> 0 then Inl ContractViolation
      else Inr (cascade (stages f) b))"

text \<open>\<^verbatim>\<open>ChannelDecimator decimator { ChannelDecimator::DecimationFactor::By16 };\<close>\<close>

definition decimator :: DecimationFactor where
  "decimator = By16"

section \<open>The dispatcher side\<close>

text \<open>
  \<^verbatim>\<open>NarrowbandAMAudio\<close>, \<^verbatim>\<open>NarrowbandFMAudio\<close> and \<^verbatim>\<open>WidebandFMAudio\<close>
  are built by \<^verbatim>\<open>main\<close> without arguments, so they cannot reach the handler map
  (a local of \<^verbatim>\<open>main\<close>); only \<^verbatim>\<open>FSKProcessor\<close> is handed it.
\<close>

datatype BasebandProcessor =
    NarrowbandAMAudio
  | NarrowbandFMAudio
  | WidebandFMAudio
  | FSK FSKProcessor

fun is_FSK :: "BasebandProcessor option \<Rightarrow> bool" where
  "is_FSK (Some (FSK p)) = True"
| "is_FSK _ = False"

text \<open>
  What the dispatcher thread does to the outside, in the order it does it: the calls on the
  handler map, the construction and destruction of processors, the calls into the RSSI and
  DMA drivers, the spectrum update of the active processor, and every message handed to
  \<^verbatim>\<open>MessageHandlerMap::send\<close>.
\<close>

datatype event =
    Unregistered ID
  | Destroyed
  | Registered ID
  | Constructed
  | rssi_start
  | dma_enable
  | dma_disable
  | rssi_stop
  | update_spectrum
  | Sent Message

text \<open>
  The state of the dispatcher thread: the handler map of the \<^verbatim>\<open>EventDispatcher\<close>,
  its \<^verbatim>\<open>is_running\<close> flag, and the two statics \<^verbatim>\<open>baseband_processor\<close>
  (\<open>None\<close> is \<^verbatim>\<open>nullptr\<close>) and \<^verbatim>\<open>baseband_configuration\<close>, together with
  the events so far, oldest first; \<open>emit\<close> appends to them.
\<close>

record dispatcher =
  message_map :: MessageHandlerMap
  is_running :: bool
  baseband_processor :: "BasebandProcessor option"
  baseband_configuration :: BasebandConfiguration
  trace :: "event list"

definition emit :: "event list \<Rightarrow> dispatcher \<Rightarrow> dispatcher" where
  "emit es s = s\<lparr>trace := trace s @ es\<rparr>"

text \<open>
  Modelled from the spec: the members of a freshly constructed \<^verbatim>\<open>FSKProcessor\<close>.
  \<^verbatim>\<open>main.cpp\<close> gives \<^verbatim>\<open>demod { 76800, 9600 * 2 }\<close> and default-constructs the
  other three, whose classes are outside it: the builder starts in the spec's \<open>Idle\<close>
  state with nothing captured, the correlator with an empty window, and nothing is
  configured yet (every length is 0).
\<close>

definition FSKProcessor_members :: FSKProcessor where
  "FSKProcessor_members =
     \<lparr>demod = (76800, 9600 * 2),
      clock_recovery = (0, 0),
      access_code_correlator =
        \<lparr>acc_history = 0, acc_code = 0, acc_code_length = 0,
         acc_maximum_hamming_distance = 0\<rparr>,
      packet_builder =
        \<lparr>pb_packet_length = 0, pb_state = Idle, pb_payload = replicate 256 False,
         pb_bits_received = 0\<rparr>\<rparr>"

text \<open>
  \<^verbatim>\<open>new FSKProcessor(message_handlers)\<close>: the constructor registers the
  \<^verbatim>\<open>FSKConfiguration\<close> handler; the pointer is assigned when it returns.
\<close>

definition new_FSKProcessor :: "dispatcher \<Rightarrow> error + dispatcher" where
  "new_FSKProcessor s =
     (case register_handler (message_map s) ID_FSKConfiguration FSKConfiguration_lambda of
        Inl e \<Rightarrow> Inl e
      | Inr m \<Rightarrow>
          Inr (emit [Registered ID_FSKConfiguration, Constructed]
                 (s\<lparr>message_map := m, baseband_processor := Some (FSK FSKProcessor_members)\<rparr>)))"

definition new_audio :: "BasebandProcessor \<Rightarrow> dispatcher \<Rightarrow> error + dispatcher" where
  "new_audio p s = Inr (emit [Constructed] (s\<lparr>baseband_processor := Some p\<rparr>))"

text \<open>
  \<^verbatim>\<open>delete old_p\<close>: nothing for a null pointer; \<^verbatim>\<open>~FSKProcessor\<close> unregisters
  the \<^verbatim>\<open>FSKConfiguration\<close> handler.
\<close>

fun delete :: "BasebandProcessor option \<Rightarrow> dispatcher \<Rightarrow> dispatcher" where
  "delete None s = s"
| "delete (Some (FSK p)) s =
     emit [Unregistered ID_FSKConfiguration, Destroyed]
       (s\<lparr>message_map := unregister_handler (message_map s) ID_FSKConfiguration\<rparr>)"
| "delete (Some p) s = emit [Destroyed] s"

text \<open>The \<^verbatim>\<open>switch\<close> on the mode of the message.\<close>

definition new_processor :: "int \<Rightarrow> dispatcher \<Rightarrow> error + dispatcher" where
  "new_processor m s =
     (if m = 0 then new_audio NarrowbandAMAudio s
      else if m = 1 then new_audio NarrowbandFMAudio s
      else if m = 2 then new_audio WidebandFMAudio s
      else if m = 3 then new_FSKProcessor s
      else Inr s)"

text \<open>
  The \<^verbatim>\<open>if( baseband_processor )\<close> after the switch; \<^verbatim>\<open>direction\<close> is the
  constant \<^verbatim>\<open>Receive\<close>.
\<close>

definition start_or_stop :: "dispatcher \<Rightarrow> dispatcher" where
  "start_or_stop s =
     (if baseband_processor s \<noteq> None then emit [rssi_start, dma_enable] s
      else emit [dma_disable, rssi_stop] s)"

text \<open>The lambda that \<^verbatim>\<open>main\<close> registers for \<^verbatim>\<open>BasebandConfiguration\<close>.\<close>

definition BasebandConfiguration_handler ::
  "dispatcher \<Rightarrow> BasebandConfiguration \<Rightarrow> error + dispatcher" where
  "BasebandConfiguration_handler s configuration =
     (if mode configuration \<noteq> mode (baseband_configuration s) then
        (let old_p = baseband_processor s;
             s1 = delete old_p (s\<lparr>baseband_processor := None\<rparr>)
         in case new_processor (mode configuration) s1 of
              Inl e \<Rightarrow> Inl e
            | Inr s2 \<Rightarrow> Inr ((start_or_stop s2)\<lparr>baseband_configuration := configuration\<rparr>))
      else Inr (s\<lparr>baseband_configuration := configuration\<rparr>))"

text \<open>
  Running a registered closure on a message. The closures cast the message to the type of
  their kind; a closure run on a message of another kind is \<open>InvalidCast\<close>, and the
  \<^verbatim>\<open>FSKProcessor\<close> closure run when its processor is gone is \<open>DanglingProcessor\<close>.
\<close>

fun invoke :: "MessageHandler \<Rightarrow> Message \<Rightarrow> dispatcher \<Rightarrow> error + dispatcher" where
  "invoke BasebandConfiguration_lambda (BasebandConfigurationMessage c) s =
     BasebandConfiguration_handler s c"
| "invoke Shutdown_lambda ShutdownMessage s = Inr (s\<lparr>is_running := False\<rparr>)"
| "invoke FSKConfiguration_lambda (FSKConfigurationMessage c) s =
     (case baseband_processor s of
        Some (FSK p) \<Rightarrow> Inr (s\<lparr>baseband_processor := Some (FSK (configure p c))\<rparr>)
      | _ \<Rightarrow> Inl DanglingProcessor)"
| "invoke h m s = Inl InvalidCast"

text \<open>
  Modelled from the spec: \<^verbatim>\<open>MessageHandlerMap::send\<close> is declared in a header
  outside \<^verbatim>\<open>main.cpp\<close>. The spec dispatches a message by kind to at most one
  registered handler and drops a message of a kind without handler, without error.
\<close>

definition send :: "dispatcher \<Rightarrow> Message \<Rightarrow> error + dispatcher" where
  "send s message =
     (case message_map s (Message_id message) of
        None \<Rightarrow> Inr (emit [Sent message] s)
      | Some h \<Rightarrow> invoke h message (emit [Sent message] s))"

text \<open>
  \<^verbatim>\<open>EventDispatcher::handle_baseband_queue\<close>. The queue
  \<^verbatim>\<open>shared_memory.baseband_queue\<close> is memory shared with the application processor,
  which fills it; no handler touches it. In the model it holds each pending record with the
  size that \<^verbatim>\<open>pop\<close> returns for it, oldest first. The loop pops until the queue is
  empty and sends each record popped with a size that is not zero; it returns the queue it
  leaves.
\<close>

type_synonym MessageQueue = "(nat \<times> Message) list"

fun handle_baseband_queue ::
  "MessageQueue \<Rightarrow> dispatcher \<Rightarrow> error + (MessageQueue \<times> dispatcher)" where
  "handle_baseband_queue [] s = Inr ([], s)"
| "handle_baseband_queue ((message_size, message) # q) s =
     (if message_size \<noteq> 0 then
        (case send s message of
           Inl e \<Rightarrow> Inl e
         | Inr s1 \<Rightarrow> handle_baseband_queue q s1)
      else handle_baseband_queue q s)"

text \<open>\<^verbatim>\<open>EventDispatcher::handle_spectrum\<close>\<close>

definition handle_spectrum :: "dispatcher \<Rightarrow> dispatcher" where
  "handle_spectrum s =
     (if baseband_processor s \<noteq> None then emit [update_spectrum] s else s)"

text \<open>
  \<^verbatim>\<open>EventDispatcher::dispatch\<close>. The event masks \<^verbatim>\<open>EVT_MASK_BASEBAND\<close> and
  \<^verbatim>\<open>EVT_MASK_SPECTRUM\<close> are constants of a header outside \<^verbatim>\<open>main.cpp\<close> and
  are parameters here; \<^verbatim>\<open>eventmask_t\<close> is a 32-bit word.
\<close>

definition dispatch ::
  "32 word \<Rightarrow> 32 word \<Rightarrow> 32 word \<Rightarrow> MessageQueue \<Rightarrow> dispatcher
     \<Rightarrow> error + (MessageQueue \<times> dispatcher)" where
  "dispatch EVT_MASK_BASEBAND EVT_MASK_SPECTRUM events q s =
     (case (if events AND EVT_MASK_BASEBAND \<noteq> 0 then handle_baseband_queue q s
            else Inr (q, s)) of
        Inl e \<Rightarrow> Inl e
      | Inr (q1, s1) \<Rightarrow>
          Inr (q1, if events AND EVT_MASK_SPECTRUM \<noteq> 0 then handle_spectrum s1 else s1))"

text \<open>
  The start of \<^verbatim>\<open>main\<close>: a new \<^verbatim>\<open>EventDispatcher\<close> (empty map, running), the
  statics as initialised (no processor, the default-constructed configuration, which is a
  parameter), and the two registrations.
\<close>

definition main_registrations :: "BasebandConfiguration \<Rightarrow> error + dispatcher" where
  "main_registrations configuration0 =
     (let s = \<lparr>message_map = (\<lambda>i. None), is_running = True, baseband_processor = None,
               baseband_configuration = configuration0, trace = []\<rparr>
      in case register_handler (message_map s) ID_BasebandConfiguration
                BasebandConfiguration_lambda of
           Inl e \<Rightarrow> Inl e
         | Inr m1 \<Rightarrow>
             (case register_handler m1 ID_Shutdown Shutdown_lambda of
                Inl e \<Rightarrow> Inl e
              | Inr m2 \<Rightarrow>
                  Inr (emit [Registered ID_BasebandConfiguration, Registered ID_Shutdown]
                         (s\<lparr>message_map := m2\<rparr>))))"

text \<open>
  The handler map as \<^verbatim>\<open>main\<close> and the processors keep it: the two handlers of
  \<^verbatim>\<open>main\<close> registered, the \<^verbatim>\<open>FSKConfiguration\<close> handler registered exactly
  while an \<^verbatim>\<open>FSKProcessor\<close> is the active processor, nothing else.
\<close>

definition registrations_consistent :: "dispatcher \<Rightarrow> bool" where
  "registrations_consistent s =
     (message_map s ID_BasebandConfiguration = Some BasebandConfiguration_lambda \<and>
      message_map s ID_Shutdown = Some Shutdown_lambda \<and>
      message_map s ID_FSKConfiguration =
        (if is_FSK (baseband_processor s) then Some FSKConfiguration_lambda else None) \<and>
      message_map s ID_RSSIStatistics = None \<and>
      message_map s ID_BasebandStatistics = None \<and>
      message_map s ID_FSKPacket = None)"

section \<open>Properties of the configuration handler\<close>

lemma emit_simps [simp]:
  "trace (emit es s) = trace s @ es"
  "message_map (emit es s) = message_map s"
  "is_running (emit es s) = is_running s"
  "baseband_processor (emit es s) = baseband_processor s"
  "baseband_configuration (emit es s) = baseband_configuration s"
  by (simp_all add: emit_def)

lemma delete_keeps_pointer [simp]:
  "baseband_processor (delete p t) = baseband_processor t"
  by (cases "(p, t)" rule: delete.cases) simp_all

text \<open>
  C9. A \<^verbatim>\<open>BasebandConfiguration\<close> message whose mode is the stored mode changes
  nothing but the stored configuration: the handler returns the state it was given with
  \<open>baseband_configuration\<close> replaced by the configuration of the message, so the active
  processor, the handler map, the running flag and the trace (no destruction, no
  construction, no registration, no driver call) are the ones before.
\<close>

theorem same_mode_only_stores_configuration:
  assumes "mode configuration = mode (baseband_configuration s)"
  shows "BasebandConfiguration_handler s configuration
           = Inr (s\<lparr>baseband_configuration := configuration\<rparr>)"
  using assms by (simp add: BasebandConfiguration_handler_def)

theorem same_mode_only_stores_configuration_witness:
  "BasebandConfiguration_handler
     \<lparr>message_map = [ID_BasebandConfiguration \<mapsto> BasebandConfiguration_lambda,
                     ID_Shutdown \<mapsto> Shutdown_lambda],
      is_running = True,
      baseband_processor = Some NarrowbandFMAudio,
      baseband_configuration = \<lparr>mode = 1, sampling_rate = 2457600\<rparr>,
      trace = []\<rparr>
     \<lparr>mode = 1, sampling_rate = 3072000\<rparr>
   = Inr \<lparr>message_map = [ID_BasebandConfiguration \<mapsto> BasebandConfiguration_lambda,
                         ID_Shutdown \<mapsto> Shutdown_lambda],
          is_running = True,
          baseband_processor = Some NarrowbandFMAudio,
          baseband_configuration = \<lparr>mode = 1, sampling_rate = 3072000\<rparr>,
          trace = []\<rparr>"
  using same_mode_only_stores_configuration
    [of "\<lparr>mode = 1, sampling_rate = 3072000\<rparr>"
        "\<lparr>message_map = [ID_BasebandConfiguration \<mapsto> BasebandConfiguration_lambda,
                        ID_Shutdown \<mapsto> Shutdown_lambda],
         is_running = True,
         baseband_processor = Some NarrowbandFMAudio,
         baseband_configuration = \<lparr>mode = 1, sampling_rate = 2457600\<rparr>,
         trace = []\<rparr>"]
  by simp

text \<open>
  C1, as the spec states it, fails: with the narrowband FM processor active under mode 1,
  a message with the unknown mode 7 is not rejected. The processor is destroyed and none
  replaces it, the DMA is disabled and the RSSI stopped, and mode 7 becomes the stored
  configuration.
\<close>

theorem unknown_mode_counterexample:
  "BasebandConfiguration_handler
     \<lparr>message_map = [ID_BasebandConfiguration \<mapsto> BasebandConfiguration_lambda,
                     ID_Shutdown \<mapsto> Shutdown_lambda],
      is_running = True,
      baseband_processor = Some NarrowbandFMAudio,
      baseband_configuration = \<lparr>mode = 1, sampling_rate = 2457600\<rparr>,
      trace = []\<rparr>
     \<lparr>mode = 7, sampling_rate = 2457600\<rparr>
   = Inr \<lparr>message_map = [ID_BasebandConfiguration \<mapsto> BasebandConfiguration_lambda,
                         ID_Shutdown \<mapsto> Shutdown_lambda],
          is_running = True,
          baseband_processor = None,
          baseband_configuration = \<lparr>mode = 7, sampling_rate = 2457600\<rparr>,
          trace = [Destroyed, dma_disable, rssi_stop]\<rparr>"
  by (simp add: BasebandConfiguration_handler_def new_processor_def start_or_stop_def emit_def)

text \<open>
  C1, amended. A \<^verbatim>\<open>BasebandConfiguration\<close> message whose mode is none of 0, 1, 2, 3
  and differs from the stored mode is applied, not rejected: the active processor, if any,
  is destroyed (\<open>delete\<close>), the \<^verbatim>\<open>default\<close> case of the switch constructs
  nothing, so the processor pointer stays null, the handler disables the baseband DMA and
  stops the RSSI, and the configuration of the message is stored.
\<close>

theorem unknown_mode_disables_processing:
  assumes "mode configuration \<noteq> mode (baseband_configuration s)"
    and "mode configuration < 0 \<or> 3 < mode configuration"
  shows "BasebandConfiguration_handler s configuration
           = Inr ((emit [dma_disable, rssi_stop]
                    (delete (baseband_processor s) (s\<lparr>baseband_processor := None\<rparr>)))
                  \<lparr>baseband_configuration := configuration\<rparr>)
         \<and> baseband_processor
               (delete (baseband_processor s) (s\<lparr>baseband_processor := None\<rparr>)) = None"
proof -
  from assms(2) have c: "new_processor (mode configuration) t = Inr t" for t
    by (auto simp: new_processor_def)
  show ?thesis
    using assms(1) by (simp add: BasebandConfiguration_handler_def c start_or_stop_def)
qed

theorem unknown_mode_disables_processing_witness:
  "BasebandConfiguration_handler
     \<lparr>message_map = [ID_BasebandConfiguration \<mapsto> BasebandConfiguration_lambda,
                     ID_Shutdown \<mapsto> Shutdown_lambda],
      is_running = True,
      baseband_processor = Some WidebandFMAudio,
      baseband_configuration = \<lparr>mode = 2, sampling_rate = 3072000\<rparr>,
      trace = []\<rparr>
     \<lparr>mode = - 1, sampling_rate = 3072000\<rparr>
   = Inr \<lparr>message_map = [ID_BasebandConfiguration \<mapsto> BasebandConfiguration_lambda,
                         ID_Shutdown \<mapsto> Shutdown_lambda],
          is_running = True,
          baseband_processor = None,
          baseband_configuration = \<lparr>mode = - 1, sampling_rate = 3072000\<rparr>,
          trace = [Destroyed, dma_disable, rssi_stop]\<rparr>"
  using unknown_mode_disables_processing
    [of "\<lparr>mode = - 1, sampling_rate = 3072000\<rparr>"
        "\<lparr>message_map = [ID_BasebandConfiguration \<mapsto> BasebandConfiguration_lambda,
                        ID_Shutdown \<mapsto> Shutdown_lambda],
         is_running = True,
         baseband_processor = Some WidebandFMAudio,
         baseband_configuration = \<lparr>mode = 2, sampling_rate = 3072000\<rparr>,
         trace = []\<rparr>"]
  by (simp add: emit_def)

section \<open>Registration of handlers\<close>

text \<open>
  C3. \<open>register_handler\<close> for a kind that already has a handler fails with
  \<open>DoubleRegistration\<close> and returns no map, so the handler that was registered is not
  overridden; for a kind without handler it registers the handler and succeeds. The map
  holds at most one handler per kind by its type. The two registrations at the start of
  \<^verbatim>\<open>main\<close> (\<^verbatim>\<open>BasebandConfiguration\<close>, then \<^verbatim>\<open>Shutdown\<close>) are for
  different kinds on an empty map, and both succeed.
\<close>

theorem double_registration_fails:
  "(m i \<noteq> None \<longrightarrow> register_handler m i h = Inl (DoubleRegistration i))
   \<and> (m i = None \<longrightarrow> register_handler m i h = Inr (m(i \<mapsto> h)))
   \<and> (\<exists>s. main_registrations c0 = Inr s
          \<and> message_map s = [ID_BasebandConfiguration \<mapsto> BasebandConfiguration_lambda,
                              ID_Shutdown \<mapsto> Shutdown_lambda])"
  by (auto simp: register_handler_def main_registrations_def split: option.splits)

theorem double_registration_fails_witness:
  "register_handler [ID_FSKConfiguration \<mapsto> FSKConfiguration_lambda]
      ID_FSKConfiguration FSKConfiguration_lambda
     = Inl (DoubleRegistration ID_FSKConfiguration)
   \<and> register_handler [ID_Shutdown \<mapsto> Shutdown_lambda]
        ID_FSKConfiguration FSKConfiguration_lambda
     = Inr [ID_Shutdown \<mapsto> Shutdown_lambda, ID_FSKConfiguration \<mapsto> FSKConfiguration_lambda]"
  using double_registration_fails
    [of "[ID_FSKConfiguration \<mapsto> FSKConfiguration_lambda]" ID_FSKConfiguration
        FSKConfiguration_lambda]
    double_registration_fails
    [of "[ID_Shutdown \<mapsto> Shutdown_lambda]" ID_FSKConfiguration FSKConfiguration_lambda]
  by simp

section \<open>Switching the processor\<close>

lemma is_FSK_not_null: "is_FSK p \<Longrightarrow> p \<noteq> None"
  by (cases p) simp_all

lemma delete_events:
  "\<exists>d. trace (delete p t) = trace t @ d
       \<and> set d \<subseteq> {Unregistered ID_FSKConfiguration, Destroyed}
       \<and> (p \<noteq> None \<longrightarrow> Destroyed \<in> set d)
       \<and> (is_FSK p \<longrightarrow> Unregistered ID_FSKConfiguration \<in> set d)"
  by (cases "(p, t)" rule: delete.cases) simp_all

lemma delete_map:
  "message_map (delete p t) =
     (if is_FSK p then (message_map t)(ID_FSKConfiguration := None) else message_map t)"
  by (cases "(p, t)" rule: delete.cases) (simp_all add: unregister_handler_def)

lemma delete_running [simp]: "is_running (delete p t) = is_running t"
  by (cases "(p, t)" rule: delete.cases) simp_all

lemma delete_configuration [simp]:
  "baseband_configuration (delete p t) = baseband_configuration t"
  by (cases "(p, t)" rule: delete.cases) simp_all

lemma new_processor_events:
  assumes "message_map t ID_FSKConfiguration = None"
  shows "\<exists>t' n. new_processor m t = Inr t' \<and> trace t' = trace t @ n
           \<and> set n \<subseteq> {Registered ID_FSKConfiguration, Constructed}
           \<and> (baseband_processor t' \<noteq> baseband_processor t \<longrightarrow> Constructed \<in> set n)
           \<and> (is_FSK (baseband_processor t') \<and> baseband_processor t' \<noteq> baseband_processor t
                 \<longrightarrow> Registered ID_FSKConfiguration \<in> set n)
           \<and> message_map t' =
               (if m = 3 then (message_map t)(ID_FSKConfiguration \<mapsto> FSKConfiguration_lambda)
                else message_map t)
           \<and> (m = 3 \<longrightarrow> is_FSK (baseband_processor t'))
           \<and> (m \<noteq> 3 \<longrightarrow>
                 \<not> is_FSK (baseband_processor t') \<or> baseband_processor t' = baseband_processor t)
           \<and> is_running t' = is_running t
           \<and> baseband_configuration t' = baseband_configuration t"
  using assms
  by (simp add: new_processor_def new_audio_def new_FSKProcessor_def register_handler_def)

text \<open>
  The handler on a message that changes the mode, in a state with consistent
  registrations: it does not fail, it leaves the registrations consistent and the running
  flag as it was, and what it adds to the trace is a run \<open>d\<close> of destruction events
  followed by a run \<open>n\<close> of construction and driver events.
\<close>

lemma mode_change_steps:
  assumes "mode configuration \<noteq> mode (baseband_configuration s)"
    and "registrations_consistent s"
  shows "\<exists>s' d n.
           BasebandConfiguration_handler s configuration = Inr s'
         \<and> registrations_consistent s'
         \<and> is_running s' = is_running s
         \<and> message_map (delete (baseband_processor s) (s\<lparr>baseband_processor := None\<rparr>))
             ID_FSKConfiguration = None
         \<and> trace (delete (baseband_processor s) (s\<lparr>baseband_processor := None\<rparr>))
             = trace s @ d
         \<and> trace s' = trace s @ d @ n
         \<and> set d \<subseteq> {Unregistered ID_FSKConfiguration, Destroyed}
         \<and> (baseband_processor s \<noteq> None \<longrightarrow> Destroyed \<in> set d)
         \<and> (is_FSK (baseband_processor s) \<longrightarrow> Unregistered ID_FSKConfiguration \<in> set d)
         \<and> set n \<subseteq> {Registered ID_FSKConfiguration, Constructed,
                       rssi_start, dma_enable, dma_disable, rssi_stop}
         \<and> (baseband_processor s' \<noteq> None \<longrightarrow> Constructed \<in> set n)
         \<and> (is_FSK (baseband_processor s') \<longrightarrow> Registered ID_FSKConfiguration \<in> set n)"
proof -
  let ?t = "delete (baseband_processor s) (s\<lparr>baseband_processor := None\<rparr>)"
  obtain d where d: "trace ?t = trace s @ d"
    "set d \<subseteq> {Unregistered ID_FSKConfiguration, Destroyed}"
    "baseband_processor s \<noteq> None \<longrightarrow> Destroyed \<in> set d"
    "is_FSK (baseband_processor s) \<longrightarrow> Unregistered ID_FSKConfiguration \<in> set d"
    using delete_events [of "baseband_processor s" "s\<lparr>baseband_processor := None\<rparr>"]
    by auto
  have free: "message_map ?t ID_FSKConfiguration = None"
    using assms(2) by (simp add: delete_map registrations_consistent_def)
  have none: "baseband_processor ?t = None"
    by simp
  obtain t' n where n: "new_processor (mode configuration) ?t = Inr t'"
    "trace t' = trace ?t @ n"
    "set n \<subseteq> {Registered ID_FSKConfiguration, Constructed}"
    "baseband_processor t' \<noteq> baseband_processor ?t \<longrightarrow> Constructed \<in> set n"
    "is_FSK (baseband_processor t') \<and> baseband_processor t' \<noteq> baseband_processor ?t
       \<longrightarrow> Registered ID_FSKConfiguration \<in> set n"
    "message_map t' =
       (if mode configuration = 3
        then (message_map ?t)(ID_FSKConfiguration \<mapsto> FSKConfiguration_lambda)
        else message_map ?t)"
    "mode configuration = 3 \<longrightarrow> is_FSK (baseband_processor t')"
    "mode configuration \<noteq> 3 \<longrightarrow>
       \<not> is_FSK (baseband_processor t') \<or> baseband_processor t' = baseband_processor ?t"
    "is_running t' = is_running ?t"
    using new_processor_events [OF free, of "mode configuration"] by blast
  let ?s' = "(start_or_stop t')\<lparr>baseband_configuration := configuration\<rparr>"
  have h: "BasebandConfiguration_handler s configuration = Inr ?s'"
    using assms(1) n(1) by (simp add: BasebandConfiguration_handler_def)
  have fsk: "is_FSK (baseband_processor t') = (mode configuration = 3)"
    using n(7,8) none by auto
  have cons: "registrations_consistent ?s'"
    using assms(2) n(6) fsk is_FSK_not_null [of "baseband_processor t'"]
    by (auto simp: registrations_consistent_def start_or_stop_def delete_map)
  have run: "is_running ?s' = is_running s"
    using n(9) by (simp add: start_or_stop_def)
  let ?n = "n @ (if baseband_processor t' \<noteq> None then [rssi_start, dma_enable]
                 else [dma_disable, rssi_stop])"
  have tr: "trace ?s' = trace s @ d @ ?n"
    using n(2) d(1) by (simp add: start_or_stop_def)
  have sub: "set ?n \<subseteq> {Registered ID_FSKConfiguration, Constructed,
                       rssi_start, dma_enable, dma_disable, rssi_stop}"
    using n(3) by auto
  have c1: "baseband_processor ?s' \<noteq> None \<longrightarrow> Constructed \<in> set ?n"
    using n(4) none by (simp add: start_or_stop_def)
  have c2: "is_FSK (baseband_processor ?s') \<longrightarrow> Registered ID_FSKConfiguration \<in> set ?n"
    using n(5) none by (auto simp: start_or_stop_def)
  show ?thesis
    using h cons run free d tr sub c1 c2 by blast
qed

text \<open>
  C2. For every message that changes the mode, received in a state where the
  \<^verbatim>\<open>FSKConfiguration\<close> handler is registered exactly while an \<^verbatim>\<open>FSKProcessor\<close>
  is active: the handler first destroys the active processor; in the state it reaches then
  (\<open>delete\<close> applied) no \<^verbatim>\<open>FSKConfiguration\<close> handler is registered; only after that
  it constructs the new processor. What the handler adds to the trace is a run \<open>d\<close> of
  destruction events (\<open>Destroyed\<close>, and \<open>Unregistered\<close> for an FSK processor) followed by
  a run \<open>n\<close> that holds no destruction event and holds the construction events
  (\<open>Constructed\<close>, and \<open>Registered\<close> for an FSK processor). The registration of the new
  processor therefore never meets a registered handler: the handler returns a state, not
  \<open>DoubleRegistration\<close>, and the registrations are consistent again.
\<close>

theorem destroy_before_construct:
  assumes "mode configuration \<noteq> mode (baseband_configuration s)"
    and "registrations_consistent s"
  shows "\<exists>s' d n.
           BasebandConfiguration_handler s configuration = Inr s'
         \<and> registrations_consistent s'
         \<and> message_map (delete (baseband_processor s) (s\<lparr>baseband_processor := None\<rparr>))
             ID_FSKConfiguration = None
         \<and> trace (delete (baseband_processor s) (s\<lparr>baseband_processor := None\<rparr>))
             = trace s @ d
         \<and> trace s' = trace s @ d @ n
         \<and> set d \<subseteq> {Unregistered ID_FSKConfiguration, Destroyed}
         \<and> (baseband_processor s \<noteq> None \<longrightarrow> Destroyed \<in> set d)
         \<and> (is_FSK (baseband_processor s) \<longrightarrow> Unregistered ID_FSKConfiguration \<in> set d)
         \<and> set n \<subseteq> {Registered ID_FSKConfiguration, Constructed,
                       rssi_start, dma_enable, dma_disable, rssi_stop}
         \<and> (baseband_processor s' \<noteq> None \<longrightarrow> Constructed \<in> set n)
         \<and> (is_FSK (baseband_processor s') \<longrightarrow> Registered ID_FSKConfiguration \<in> set n)"
  using mode_change_steps [OF assms] by blast

theorem destroy_before_construct_witness:
  "mode \<lparr>mode = 0, sampling_rate = 3072000\<rparr>
     \<noteq> mode (baseband_configuration
         \<lparr>message_map = [ID_BasebandConfiguration \<mapsto> BasebandConfiguration_lambda,
                         ID_Shutdown \<mapsto> Shutdown_lambda,
                         ID_FSKConfiguration \<mapsto> FSKConfiguration_lambda],
          is_running = True,
          baseband_processor = Some (FSK FSKProcessor_members),
          baseband_configuration = \<lparr>mode = 3, sampling_rate = 2457600\<rparr>,
          trace = []\<rparr>)
   \<and> registrations_consistent
         \<lparr>message_map = [ID_BasebandConfiguration \<mapsto> BasebandConfiguration_lambda,
                         ID_Shutdown \<mapsto> Shutdown_lambda,
                         ID_FSKConfiguration \<mapsto> FSKConfiguration_lambda],
          is_running = True,
          baseband_processor = Some (FSK FSKProcessor_members),
          baseband_configuration = \<lparr>mode = 3, sampling_rate = 2457600\<rparr>,
          trace = []\<rparr>
   \<and> (\<exists>s'. BasebandConfiguration_handler
         \<lparr>message_map = [ID_BasebandConfiguration \<mapsto> BasebandConfiguration_lambda,
                         ID_Shutdown \<mapsto> Shutdown_lambda,
                         ID_FSKConfiguration \<mapsto> FSKConfiguration_lambda],
          is_running = True,
          baseband_processor = Some (FSK FSKProcessor_members),
          baseband_configuration = \<lparr>mode = 3, sampling_rate = 2457600\<rparr>,
          trace = []\<rparr>
         \<lparr>mode = 0, sampling_rate = 3072000\<rparr> = Inr s'
       \<and> baseband_processor s' = Some NarrowbandAMAudio
       \<and> message_map s' ID_FSKConfiguration = None
       \<and> trace s' = [Unregistered ID_FSKConfiguration, Destroyed, Constructed,
                      rssi_start, dma_enable])"
  using destroy_before_construct
    [of "\<lparr>mode = 0, sampling_rate = 3072000\<rparr>"
        "\<lparr>message_map = [ID_BasebandConfiguration \<mapsto> BasebandConfiguration_lambda,
                         ID_Shutdown \<mapsto> Shutdown_lambda,
                         ID_FSKConfiguration \<mapsto> FSKConfiguration_lambda],
          is_running = True,
          baseband_processor = Some (FSK FSKProcessor_members),
          baseband_configuration = \<lparr>mode = 3, sampling_rate = 2457600\<rparr>,
          trace = []\<rparr>"]
  by (simp add: registrations_consistent_def BasebandConfiguration_handler_def
        new_processor_def new_audio_def start_or_stop_def unregister_handler_def emit_def)

section \<open>The event dispatcher\<close>

lemma no_sent_in:
  "\<forall>m. Sent m \<notin> set es \<Longrightarrow> [m. Sent m \<leftarrow> es] = []"
proof (induction es)
  case Nil
  then show ?case by simp
next
  case (Cons e es)
  then show ?case by (cases e) auto
qed

text \<open>
  In a state with consistent registrations the configuration handler, \<open>send\<close> and the
  drain of the queue never fail, keep the registrations consistent, and add to the trace
  neither a spectrum update nor a \<open>Sent\<close> event other than the one of each message
  handed to \<open>send\<close>.
\<close>

lemma handler_steps:
  assumes "registrations_consistent s"
  shows "\<exists>s' es. BasebandConfiguration_handler s c = Inr s'
           \<and> registrations_consistent s'
           \<and> trace s' = trace s @ es
           \<and> update_spectrum \<notin> set es \<and> (\<forall>m. Sent m \<notin> set es)"
proof (cases "mode c = mode (baseband_configuration s)")
  case True
  then show ?thesis
    using assms
    by (simp add: BasebandConfiguration_handler_def registrations_consistent_def)
next
  case False
  from mode_change_steps [OF False assms]
  obtain s' d n where *: "BasebandConfiguration_handler s c = Inr s'"
    "registrations_consistent s'" "trace s' = trace s @ d @ n"
    "set d \<subseteq> {Unregistered ID_FSKConfiguration, Destroyed}"
    "set n \<subseteq> {Registered ID_FSKConfiguration, Constructed,
                       rssi_start, dma_enable, dma_disable, rssi_stop}"
    by blast
  have "update_spectrum \<notin> set (d @ n)" "\<forall>m. Sent m \<notin> set (d @ n)"
    using *(4,5) by auto
  with *(1,2,3) show ?thesis by auto
qed

lemma send_steps:
  assumes "registrations_consistent s"
  shows "\<exists>s' es. send s message = Inr s'
           \<and> registrations_consistent s'
           \<and> trace s' = trace s @ Sent message # es
           \<and> update_spectrum \<notin> set es \<and> (\<forall>m. Sent m \<notin> set es)"
proof (cases message)
  case (BasebandConfigurationMessage c)
  have r: "registrations_consistent (emit [Sent message] s)"
    using assms by (simp add: registrations_consistent_def)
  from handler_steps [OF r, of c] obtain s' es where
    "BasebandConfiguration_handler (emit [Sent message] s) c = Inr s'"
    "registrations_consistent s'" "trace s' = trace (emit [Sent message] s) @ es"
    "update_spectrum \<notin> set es" "\<forall>m. Sent m \<notin> set es"
    by blast
  then show ?thesis
    using assms BasebandConfigurationMessage
    by (simp add: send_def registrations_consistent_def)
next
  case (FSKConfigurationMessage c)
  show ?thesis
  proof (cases "baseband_processor s")
    case None
    then show ?thesis
      using assms FSKConfigurationMessage
      by (simp add: send_def registrations_consistent_def)
  next
    case (Some p)
    then show ?thesis
      using assms FSKConfigurationMessage
      by (cases p) (simp_all add: send_def registrations_consistent_def)
  qed
qed (use assms in \<open>simp_all add: send_def registrations_consistent_def\<close>)

lemma drain_steps:
  assumes "registrations_consistent s"
  shows "\<exists>s' t. handle_baseband_queue q s = Inr ([], s')
           \<and> registrations_consistent s'
           \<and> trace s' = trace s @ t
           \<and> update_spectrum \<notin> set t
           \<and> [m. Sent m \<leftarrow> t] = [m. (n, m) \<leftarrow> q, n \<noteq> 0]"
  using assms
proof (induction q arbitrary: s)
  case Nil
  then show ?case by simp
next
  case (Cons x q)
  obtain k message where x: "x = (k, message)" by (cases x)
  show ?case
  proof (cases "k = 0")
    case True
    with Cons x show ?thesis by simp
  next
    case False
    from send_steps [OF Cons.prems, of message] obtain s1 es where
      s1: "send s message = Inr s1" "registrations_consistent s1"
      "trace s1 = trace s @ Sent message # es"
      "update_spectrum \<notin> set es" "\<forall>m. Sent m \<notin> set es"
      by blast
    from Cons.IH [OF s1(2)] obtain s' t where
      t: "handle_baseband_queue q s1 = Inr ([], s')" "registrations_consistent s'"
      "trace s' = trace s1 @ t" "update_spectrum \<notin> set t"
      "[m. Sent m \<leftarrow> t] = [m. (n, m) \<leftarrow> q, n \<noteq> 0]"
      by blast
    have "trace s' = trace s @ (Sent message # es @ t)"
      using s1(3) t(3) by simp
    moreover have "update_spectrum \<notin> set (Sent message # es @ t)"
      using s1(4) t(4) by simp
    moreover have "[m. Sent m \<leftarrow> Sent message # es @ t] = [m. (n, m) \<leftarrow> x # q, n \<noteq> 0]"
      using no_sent_in [OF s1(5)] t(5) x False by simp
    ultimately show ?thesis
      using x False s1(1) t(1,2) by (intro exI [of _ s'] exI [of _ "Sent message # es @ t"]) simp
  qed
qed

text \<open>
  C5, as the spec states it, fails. \<^verbatim>\<open>dispatch\<close> drains the queue only under
  \<^verbatim>\<open>if( events & EVT_MASK_BASEBAND )\<close>. With the masks 1 (baseband) and 2
  (spectrum), a wake with the events 2 while a record is pending handles the spectrum
  update and leaves the record in the queue, not popped and not sent.
\<close>

theorem drain_before_spectrum_counterexample:
  "dispatch 1 2 2 [(4, ShutdownMessage)]
     \<lparr>message_map = [ID_BasebandConfiguration \<mapsto> BasebandConfiguration_lambda,
                     ID_Shutdown \<mapsto> Shutdown_lambda],
      is_running = True,
      baseband_processor = Some NarrowbandAMAudio,
      baseband_configuration = \<lparr>mode = 0, sampling_rate = 3072000\<rparr>,
      trace = []\<rparr>
   = Inr ([(4, ShutdownMessage)],
     \<lparr>message_map = [ID_BasebandConfiguration \<mapsto> BasebandConfiguration_lambda,
                     ID_Shutdown \<mapsto> Shutdown_lambda],
      is_running = True,
      baseband_processor = Some NarrowbandAMAudio,
      baseband_configuration = \<lparr>mode = 0, sampling_rate = 3072000\<rparr>,
      trace = [update_spectrum]\<rparr>)"
  by (simp add: dispatch_def handle_spectrum_def emit_def)

text \<open>
  C5, amended. In a state with consistent registrations: on a wake whose events include
  \<^verbatim>\<open>EVT_MASK_BASEBAND\<close>, \<^verbatim>\<open>dispatch\<close> drains the queue (it is empty
  afterwards), hands every pending record popped with a size other than zero to
  \<open>send\<close>, in queue order, and adds no spectrum update to the trace while draining; the
  spectrum trigger is handled on the state the drain leaves. On a wake whose events do not
  include \<^verbatim>\<open>EVT_MASK_BASEBAND\<close> the queue is left as it is and the spectrum trigger
  is handled at once.
\<close>

theorem drain_before_spectrum:
  assumes "registrations_consistent s"
  shows "(events AND EVT_MASK_BASEBAND \<noteq> 0 \<longrightarrow>
           (\<exists>s1 t. handle_baseband_queue q s = Inr ([], s1)
              \<and> trace s1 = trace s @ t
              \<and> update_spectrum \<notin> set t
              \<and> [m. Sent m \<leftarrow> t] = [m. (n, m) \<leftarrow> q, n \<noteq> 0]
              \<and> dispatch EVT_MASK_BASEBAND EVT_MASK_SPECTRUM events q s
                  = Inr ([], if events AND EVT_MASK_SPECTRUM \<noteq> 0
                             then handle_spectrum s1 else s1)))
       \<and> (events AND EVT_MASK_BASEBAND = 0 \<longrightarrow>
            dispatch EVT_MASK_BASEBAND EVT_MASK_SPECTRUM events q s
              = Inr (q, if events AND EVT_MASK_SPECTRUM \<noteq> 0 then handle_spectrum s else s))"
proof -
  from drain_steps [OF assms, of q] obtain s1 t where
    "handle_baseband_queue q s = Inr ([], s1)" "trace s1 = trace s @ t"
    "update_spectrum \<notin> set t" "[m. Sent m \<leftarrow> t] = [m. (n, m) \<leftarrow> q, n \<noteq> 0]"
    by blast
  then show ?thesis
    by (auto simp: dispatch_def)
qed

theorem drain_before_spectrum_witness:
  "registrations_consistent
     \<lparr>message_map = [ID_BasebandConfiguration \<mapsto> BasebandConfiguration_lambda,
                     ID_Shutdown \<mapsto> Shutdown_lambda],
      is_running = True,
      baseband_processor = None,
      baseband_configuration = \<lparr>mode = 0, sampling_rate = 3072000\<rparr>,
      trace = []\<rparr>
   \<and> (3 :: 32 word) AND 1 \<noteq> 0
   \<and> dispatch 1 2 3
       [(8, BasebandConfigurationMessage \<lparr>mode = 1, sampling_rate = 3072000\<rparr>),
        (4, ShutdownMessage)]
       \<lparr>message_map = [ID_BasebandConfiguration \<mapsto> BasebandConfiguration_lambda,
                       ID_Shutdown \<mapsto> Shutdown_lambda],
        is_running = True,
        baseband_processor = None,
        baseband_configuration = \<lparr>mode = 0, sampling_rate = 3072000\<rparr>,
        trace = []\<rparr>
     = Inr ([],
       \<lparr>message_map = [ID_BasebandConfiguration \<mapsto> BasebandConfiguration_lambda,
                       ID_Shutdown \<mapsto> Shutdown_lambda],
        is_running = False,
        baseband_processor = Some NarrowbandFMAudio,
        baseband_configuration = \<lparr>mode = 1, sampling_rate = 3072000\<rparr>,
        trace = [Sent (BasebandConfigurationMessage \<lparr>mode = 1, sampling_rate = 3072000\<rparr>),
                 Constructed, rssi_start, dma_enable,
                 Sent ShutdownMessage,
                 update_spectrum]\<rparr>)"
  using drain_before_spectrum
    [of "\<lparr>message_map = [ID_BasebandConfiguration \<mapsto> BasebandConfiguration_lambda,
                       ID_Shutdown \<mapsto> Shutdown_lambda],
        is_running = True,
        baseband_processor = None,
        baseband_configuration = \<lparr>mode = 0, sampling_rate = 3072000\<rparr>,
        trace = []\<rparr>" 3 1
       "[(8, BasebandConfigurationMessage \<lparr>mode = 1, sampling_rate = 3072000\<rparr>),
        (4, ShutdownMessage)]" 2]
  by (simp add: registrations_consistent_def dispatch_def send_def
        BasebandConfiguration_handler_def new_processor_def new_audio_def
        start_or_stop_def handle_spectrum_def emit_def)

section \<open>Channel decimator\<close>

lemma cascade_div:
  "cascade k b = \<lparr>count = count b div 2 ^ k, sampling_rate_of = sampling_rate_of b div 2 ^ k\<rparr>"
proof (induction k arbitrary: b)
  case 0
  then show ?case by simp
next
  case (Suc k)
  then show ?case by (simp add: half_band_stage_def div_mult2_eq)
qed

lemma factor_stages: "factor f = 2 ^ stages f"
  by (induction f) simp_all

lemma every_power_of_two_is_a_factor: "\<exists>f. factor f = 2 ^ Suc k"
proof (induction k)
  case 0
  have "factor By2 = 2 ^ Suc 0" by simp
  then show ?case ..
next
  case (Suc k)
  then obtain f where "factor f = 2 ^ Suc k" ..
  then have "factor (Twice f) = 2 ^ Suc (Suc k)" by simp
  then show ?case ..
qed

text \<open>
  C8. For every decimation factor \<open>f\<close> and every input buffer whose sample count is
  divisible by \<open>f\<close>, the decimator returns a buffer whose count is the input count divided
  by \<open>f\<close> and whose sampling rate is the input rate divided by \<open>f\<close>. The factors are all
  the powers of two from 2 on: every factor is 2 to the number of its stages, which is at
  least one, and every such power is the factor of some configuration. The decimator of
  the FSK processor (\<^verbatim>\<open>By16\<close>) turns 2048 samples at 2.4576 MHz into 128 samples at
  153.6 kHz.
\<close>

theorem decimator_divides_count_and_rate:
  "(count b mod factor f = 0 \<longrightarrow>
      ChannelDecimator_execute f b
        = Inr \<lparr>count = count b div factor f,
               sampling_rate_of = sampling_rate_of b div factor f\<rparr>)
   \<and> factor f = 2 ^ stages f \<and> 0 < stages f
   \<and> (\<exists>g. factor g = 2 ^ Suc k)"
proof -
  have "0 < stages f"
    by (cases f) simp_all
  then show ?thesis
    using every_power_of_two_is_a_factor [of k]
    by (simp add: ChannelDecimator_execute_def cascade_div factor_stages)
qed

text \<open>
  The factor 16 of the FSK processor, and the factors 2 and 32, on 2048 samples at
  2.4576 MHz.
\<close>

theorem decimator_divides_count_and_rate_witness:
  "count \<lparr>count = 2048, sampling_rate_of = 2457600\<rparr> mod factor decimator = 0
   \<and> factor decimator = 16
   \<and> ChannelDecimator_execute decimator \<lparr>count = 2048, sampling_rate_of = 2457600\<rparr>
       = Inr \<lparr>count = 128, sampling_rate_of = 153600\<rparr>
   \<and> factor By2 = 2
   \<and> ChannelDecimator_execute By2 \<lparr>count = 2048, sampling_rate_of = 2457600\<rparr>
       = Inr \<lparr>count = 1024, sampling_rate_of = 1228800\<rparr>
   \<and> factor (Twice By16) = 32
   \<and> ChannelDecimator_execute (Twice By16) \<lparr>count = 2048, sampling_rate_of = 2457600\<rparr>
       = Inr \<lparr>count = 64, sampling_rate_of = 76800\<rparr>"
  using decimator_divides_count_and_rate
      [where b = "\<lparr>count = 2048, sampling_rate_of = 2457600\<rparr>" and f = decimator]
    decimator_divides_count_and_rate
      [where b = "\<lparr>count = 2048, sampling_rate_of = 2457600\<rparr>" and f = By2]
    decimator_divides_count_and_rate
      [where b = "\<lparr>count = 2048, sampling_rate_of = 2457600\<rparr>" and f = "Twice By16"]
  by (simp add: decimator_def By16_def By8_def By4_def)

section \<open>Access-code correlator\<close>

lemma hamming_distance_card:
  "hamming_distance n a b = card {i. i < n \<and> bit a i \<noteq> bit b i}"
  by (simp add: hamming_distance_def length_filter_conv_card cong: conj_cong)

lemma bit_shift_in:
  fixes h :: nat
  shows "bit (2 * h + (if b then 1 else 0)) i = (if i = 0 then b else bit h (i - 1))"
  by (cases i) (auto simp: bit_0 bit_Suc)

text \<open>
  C7. When a symbol is appended, the correlator reports a match if and only if the number
  of positions below the access-code length at which its window (after the shift) differs
  from the access code is at most the tolerance. The window after the shift holds the new
  symbol at position 0 and, at every other position below the length, the bit that was one
  position lower. The configuration is not changed by \<open>execute\<close>.
\<close>

theorem correlator_matches_within_tolerance:
  assumes "AccessCodeCorrelator_execute c symbol = (c1, found)"
  shows "(found \<longleftrightarrow>
            card {i. i < acc_code_length c \<and> bit (acc_history c1) i \<noteq> bit (acc_code c) i}
              \<le> acc_maximum_hamming_distance c)
         \<and> (\<forall>i < acc_code_length c.
               bit (acc_history c1) i
                 = (if i = 0 then symbol \<noteq> 0 else bit (acc_history c) (i - 1)))
         \<and> acc_code c1 = acc_code c
         \<and> acc_code_length c1 = acc_code_length c
         \<and> acc_maximum_hamming_distance c1 = acc_maximum_hamming_distance c"
proof -
  have b: "bit (take_bit (acc_code_length c)
               (2 * acc_history c + (if symbol \<noteq> 0 then 1 else 0))) i
         = (if i = 0 then symbol \<noteq> 0 else bit (acc_history c) (i - 1))"
    if "i < acc_code_length c" for i
    using that bit_shift_in [of "acc_history c" "symbol \<noteq> 0" i]
    by (simp add: bit_take_bit_iff)
  show ?thesis
    using assms b
    by (auto simp: AccessCodeCorrelator_execute_def Let_def hamming_distance_card)
qed

text \<open>
  For length 32 and tolerance 2: a window that differs from the code \<^verbatim>\<open>0xAAAAAAAA\<close> at
  the positions 5 and 9 matches; one that differs at 5, 9 and 12 does not.
\<close>

theorem correlator_matches_within_tolerance_witness:
  "AccessCodeCorrelator_execute
     \<lparr>acc_history = 1431655493, acc_code = 2863311530, acc_code_length = 32,
      acc_maximum_hamming_distance = 2\<rparr> 0
     = (\<lparr>acc_history = 2863310986, acc_code = 2863311530, acc_code_length = 32,
         acc_maximum_hamming_distance = 2\<rparr>, True)
   \<and> card {i. i < 32 \<and> bit (2863310986 :: nat) i \<noteq> bit (2863311530 :: nat) i} \<le> 2
   \<and> AccessCodeCorrelator_execute
     \<lparr>acc_history = 1431657541, acc_code = 2863311530, acc_code_length = 32,
      acc_maximum_hamming_distance = 2\<rparr> 0
     = (\<lparr>acc_history = 2863315082, acc_code = 2863311530, acc_code_length = 32,
         acc_maximum_hamming_distance = 2\<rparr>, False)
   \<and> \<not> card {i. i < 32 \<and> bit (2863315082 :: nat) i \<noteq> bit (2863311530 :: nat) i} \<le> 2"
proof -
  have e2: "AccessCodeCorrelator_execute
     \<lparr>acc_history = 1431655493, acc_code = 2863311530, acc_code_length = 32,
      acc_maximum_hamming_distance = 2\<rparr> 0
     = (\<lparr>acc_history = 2863310986, acc_code = 2863311530, acc_code_length = 32,
         acc_maximum_hamming_distance = 2\<rparr>, True)"
    by (simp add: AccessCodeCorrelator_execute_def hamming_distance_def
          upt_rec [of _ "numeral _"])
  have e3: "AccessCodeCorrelator_execute
     \<lparr>acc_history = 1431657541, acc_code = 2863311530, acc_code_length = 32,
      acc_maximum_hamming_distance = 2\<rparr> 0
     = (\<lparr>acc_history = 2863315082, acc_code = 2863311530, acc_code_length = 32,
         acc_maximum_hamming_distance = 2\<rparr>, False)"
    by (simp add: AccessCodeCorrelator_execute_def hamming_distance_def
          upt_rec [of _ "numeral _"])
  show ?thesis
    using correlator_matches_within_tolerance [OF e2]
      correlator_matches_within_tolerance [OF e3] e2 e3
    by simp
qed

section \<open>Packet builder and packet messages\<close>

lemma PacketBuilder_execute_length [simp]:
  "pb_packet_length (fst (PacketBuilder_execute pb symbol found)) = pb_packet_length pb"
  by (simp add: PacketBuilder_execute_def split: PacketBuilder_State.splits)

lemma PacketBuilder_execute_callback:
  "PacketBuilder_execute pb symbol found = (pb1, Some (bits, n)) \<Longrightarrow> n = pb_packet_length pb"
  by (auto simp: PacketBuilder_execute_def split: PacketBuilder_State.splits if_splits)

lemma consume_symbol_packets:
  "pb_packet_length (packet_builder (fst (consume_symbol p symbol found)))
     = pb_packet_length (packet_builder p)
   \<and> (\<forall>m \<in> set (snd (consume_symbol p symbol found)).
        \<exists>pkt. m = FSKPacketMessage pkt
              \<and> bits_received pkt = pb_packet_length (packet_builder p))"
proof (cases "PacketBuilder_execute (packet_builder p) symbol found")
  case (Pair pb1 cb)
  have l: "pb_packet_length pb1 = pb_packet_length (packet_builder p)"
    using PacketBuilder_execute_length [of "packet_builder p" symbol found] Pair by simp
  show ?thesis
  proof (cases cb)
    case None
    with Pair l show ?thesis by (simp add: consume_symbol_def)
  next
    case (Some a)
    obtain bits n where a: "a = (bits, n)" by (cases a)
    with Pair Some have "n = pb_packet_length (packet_builder p)"
      using PacketBuilder_execute_callback by simp
    with Pair Some a l show ?thesis
      by (simp add: consume_symbol_def payload_handler_def)
  qed
qed

lemma symbol_handler_fn_packets:
  "pb_packet_length (packet_builder (fst (symbol_handler_fn p v)))
     = pb_packet_length (packet_builder p)
   \<and> (\<forall>m \<in> set (snd (symbol_handler_fn p v)).
        \<exists>pkt. m = FSKPacketMessage pkt
              \<and> bits_received pkt = pb_packet_length (packet_builder p))"
proof -
  obtain acc found where
    e: "AccessCodeCorrelator_execute (access_code_correlator p) (symbol_of v) = (acc, found)"
    by (cases "AccessCodeCorrelator_execute (access_code_correlator p) (symbol_of v)")
  show ?thesis
    using consume_symbol_packets [of "p\<lparr>access_code_correlator := acc\<rparr>" "symbol_of v" found] e
    by (simp add: symbol_handler_fn_def)
qed

lemma symbol_handler_run_packets:
  "pb_packet_length (packet_builder (fst (symbol_handler_run p vs)))
     = pb_packet_length (packet_builder p)
   \<and> (\<forall>m \<in> set (snd (symbol_handler_run p vs)).
        \<exists>pkt. m = FSKPacketMessage pkt
              \<and> bits_received pkt = pb_packet_length (packet_builder p))"
proof (induction vs arbitrary: p)
  case Nil
  then show ?case by simp
next
  case (Cons v vs)
  obtain p1 out1 where s: "symbol_handler_fn p v = (p1, out1)"
    by (cases "symbol_handler_fn p v")
  obtain p2 out2 where r: "symbol_handler_run p1 vs = (p2, out2)"
    by (cases "symbol_handler_run p1 vs")
  from symbol_handler_fn_packets [of p v] s
  have 1: "pb_packet_length (packet_builder p1) = pb_packet_length (packet_builder p)"
    "\<forall>m \<in> set out1. \<exists>pkt. m = FSKPacketMessage pkt
        \<and> bits_received pkt = pb_packet_length (packet_builder p)"
    by simp_all
  from Cons.IH [of p1] r 1(1)
  have 2: "pb_packet_length (packet_builder p2) = pb_packet_length (packet_builder p)"
    "\<forall>m \<in> set out2. \<exists>pkt. m = FSKPacketMessage pkt
        \<and> bits_received pkt = pb_packet_length (packet_builder p)"
    by simp_all
  from 1 2 s r show ?case by auto
qed

text \<open>
  C4. Whenever \<open>PacketBuilder_execute\<close> calls the payload handler, the bit count it
  passes is the configured packet length. Over any succession of symbol-handler calls of
  the FSK processor, every message pushed to the application queue is an
  \<^verbatim>\<open>FSKPacketMessage\<close> whose \<open>bits_received\<close> is the packet length the builder is
  configured with.
\<close>

theorem payload_callback_has_packet_length:
  "(\<forall>pb1 bits n. PacketBuilder_execute pb symbol found = (pb1, Some (bits, n))
       \<longrightarrow> n = pb_packet_length pb)
   \<and> (\<forall>m \<in> set (snd (symbol_handler_run p vs)).
        \<exists>pkt. m = FSKPacketMessage pkt
              \<and> bits_received pkt = pb_packet_length (packet_builder p))"
  using PacketBuilder_execute_callback symbol_handler_run_packets by blast

text \<open>
  An access code \<^verbatim>\<open>10\<close> of length 2 with tolerance 0 and packet length 2: the symbols
  1, 0 complete the code, the next two symbols are captured, and the symbol after them
  finds the counter at the packet length, so one packet of 2 bits is pushed.
\<close>

theorem payload_callback_has_packet_length_witness:
  "PacketBuilder_execute
     \<lparr>pb_packet_length = 2, pb_state = Capturing,
      pb_payload = (replicate 256 False)[0 := True, 1 := True], pb_bits_received = 2\<rparr>
     1 False
     = (\<lparr>pb_packet_length = 2, pb_state = Idle, pb_payload = replicate 256 False,
         pb_bits_received = 0\<rparr>,
        Some ((replicate 256 False)[0 := True, 1 := True], 2))
   \<and> snd (symbol_handler_run
       (configure FSKProcessor_members
          \<lparr>symbol_rate = 9600, access_code = 2, access_code_length = 2,
           access_code_tolerance = 0, packet_length = 2\<rparr>)
       [Finite 1, Finite (- 1), Finite 1, Finite 1, Finite 1])
     = [FSKPacketMessage \<lparr>payload = (replicate 256 False)[0 := True, 1 := True],
          bits_received = 2\<rparr>]
   \<and> pb_packet_length (packet_builder
       (configure FSKProcessor_members
          \<lparr>symbol_rate = 9600, access_code = 2, access_code_length = 2,
           access_code_tolerance = 0, packet_length = 2\<rparr>)) = 2"
proof -
  have e: "symbol_handler_run
       (configure FSKProcessor_members
          \<lparr>symbol_rate = 9600, access_code = 2, access_code_length = 2,
           access_code_tolerance = 0, packet_length = 2\<rparr>)
       [Finite 1, Finite (- 1), Finite 1, Finite 1, Finite 1]
   = (\<lparr>demod = (76800, 19200), clock_recovery = (9600, 76800),
       access_code_correlator =
        \<lparr>acc_history = 3, acc_code = 2, acc_code_length = 2,
         acc_maximum_hamming_distance = 0\<rparr>,
      packet_builder =
        \<lparr>pb_packet_length = 2, pb_state = Idle, pb_payload = replicate 256 False,
         pb_bits_received = 0\<rparr>\<rparr>,
     [FSKPacketMessage \<lparr>payload = (replicate 256 False)[0 := True, 1 := True],
        bits_received = 2\<rparr>])"
    by (simp add: configure_def FSKProcessor_members_def AccessCodeCorrelator_configure_def
          PacketBuilder_configure_def symbol_handler_fn_def symbol_of_def
          AccessCodeCorrelator_execute_def hamming_distance_def consume_symbol_def
          PacketBuilder_execute_def payload_handler_def upt_rec [of _ "numeral _"]
          bit_0 bit_Suc)
  have c: "PacketBuilder_execute
     \<lparr>pb_packet_length = 2, pb_state = Capturing,
      pb_payload = (replicate 256 False)[0 := True, 1 := True], pb_bits_received = 2\<rparr>
     1 False
     = (\<lparr>pb_packet_length = 2, pb_state = Idle, pb_payload = replicate 256 False,
         pb_bits_received = 0\<rparr>,
        Some ((replicate 256 False)[0 := True, 1 := True], 2))"
    by (simp add: PacketBuilder_execute_def)
  show ?thesis
    using payload_callback_has_packet_length
      [where p = "configure FSKProcessor_members
          \<lparr>symbol_rate = 9600, access_code = 2, access_code_length = 2,
           access_code_tolerance = 0, packet_length = 2\<rparr>"
        and vs = "[Finite 1, Finite (- 1), Finite 1, Finite 1, Finite 1]"
        and pb = "\<lparr>pb_packet_length = 2, pb_state = Capturing,
      pb_payload = (replicate 256 False)[0 := True, 1 := True], pb_bits_received = 2\<rparr>"
        and symbol = 1 and found = False]
      e c
    by (simp add: configure_def PacketBuilder_configure_def FSKProcessor_members_def)
qed

section \<open>Symbol decisions\<close>

text \<open>
  C10. The symbol handler quantises the value it is handed to 1 when the value is at least
  0.0 and to 0 when it is negative (a zero gives 1), and it is this symbol that it passes
  both to the access-code correlator and, through \<^verbatim>\<open>consume_symbol\<close>, to the packet
  builder.
\<close>

theorem symbol_is_sign_of_value:
  "(0 \<le> r \<longrightarrow> symbol_of (Finite r) = 1)
   \<and> (r < 0 \<longrightarrow> symbol_of (Finite r) = 0)
   \<and> symbol_of PlusInfinity = 1
   \<and> symbol_of MinusInfinity = 0
   \<and> (let (acc, found) =
             AccessCodeCorrelator_execute (access_code_correlator p) (symbol_of v);
           (pb, callback) = PacketBuilder_execute (packet_builder p) (symbol_of v) found
       in symbol_handler_fn p v =
            (p\<lparr>access_code_correlator := acc, packet_builder := pb\<rparr>,
             case callback of
               None \<Rightarrow> []
             | Some (bits, n) \<Rightarrow> [FSKPacketMessage \<lparr>payload = bits, bits_received = n\<rparr>]))"
  by (simp add: symbol_of_def symbol_handler_fn_def consume_symbol_def payload_handler_def
        split: prod.splits option.splits)

theorem symbol_is_sign_of_value_witness:
  "symbol_of (Finite 0) = 1 \<and> symbol_of (Finite (1 / 2)) = 1
   \<and> symbol_of (Finite (- 1 / 2)) = 0"
  using symbol_is_sign_of_value [of 0] symbol_is_sign_of_value [of "1 / 2"]
    symbol_is_sign_of_value [of "- 1 / 2"]
  by simp

end
